theory Spec2Isabelle
  imports Main
begin

unbundle bit_operations_syntax

section \<open>The standard logger the package wraps\<close>

text \<open>
  Both packages of the repository (\<open>twigsnake\<close> and \<open>nlog\<close>) wrap Go's \<open>log.Logger\<close>.
  The repository holds pointers to eight such objects, so the objects live in a store and the
  logger struct holds references into it. A store is the list of the objects allocated so far;
  a reference is an index into that list, and a reference that points at no object (Go's
  \<open>nil\<close>) makes a method call on it panic.

  An \<open>io.Writer\<close> is identified by a number, and a writer takes whatever is handed to it
  (the packages never look at the result of a write). What has been handed to the writers is
  recorded in one chronological trace: each entry names the writer and carries the flags and
  the prefix of the standard logger that wrote it, and the print call with its arguments. The
  rendering of an entry into bytes (timestamp, argument formatting) belongs to the standard
  library. The arguments \<open>v ...interface{}\<close> are a list over an arbitrary type \<open>'v\<close>.
\<close>

type_synonym writer = nat
type_synonym ref = nat

record std_logger =
  out :: writer
  prefix :: string
  flag :: int

datatype 'v print_call =
    Print "'v list"
  | Printf string "'v list"
  | Println "'v list"

datatype 'v entry = Entry (e_out: writer) (e_flag: int) (e_prefix: string) (e_call: "'v print_call")

record 'v world =
  objs :: "std_logger list"
  trace :: "'v entry list"

datatype failure = NilDereference | UndefinedField string

text \<open>The flag bits of Go's \<open>log\<close> package (\<open>1 << iota\<close>, in the order of its declaration).\<close>

definition Ldate :: int where "Ldate = 1"
definition Ltime :: int where "Ltime = 2"
definition Lmicroseconds :: int where "Lmicroseconds = 4"
definition Llongfile :: int where "Llongfile = 8"
definition Lshortfile :: int where "Lshortfile = 16"
definition LUTC :: int where "LUTC = 32"
definition Lmsgprefix :: int where "Lmsgprefix = 64"

definition deref :: "'v world \<Rightarrow> ref \<Rightarrow> std_logger option" where
  "deref w a = (if a < length (objs w) then Some (objs w ! a) else None)"

text \<open>\<open>log.New(out, prefix, flag)\<close> allocates a fresh standard logger and returns its reference.\<close>

definition log_New :: "writer \<Rightarrow> string \<Rightarrow> int \<Rightarrow> 'v world \<Rightarrow> ref \<times> 'v world" where
  "log_New dest p f w =
     (length (objs w), w\<lparr>objs := objs w @ [\<lparr>out = dest, prefix = p, flag = f\<rparr>]\<rparr>)"

text \<open>The three print methods hand one entry to the writer of the standard logger.\<close>

definition log_Output :: "ref \<Rightarrow> 'v print_call \<Rightarrow> 'v world \<Rightarrow> failure + 'v world" where
  "log_Output a c w =
     (case deref w a of
        None \<Rightarrow> Inl NilDereference
      | Some g \<Rightarrow> Inr (w\<lparr>trace := trace w @ [Entry (out g) (flag g) (prefix g) c]\<rparr>))"

definition log_Print :: "ref \<Rightarrow> 'v list \<Rightarrow> 'v world \<Rightarrow> failure + 'v world" where
  "log_Print a v w = log_Output a (Print v) w"

definition log_Printf :: "ref \<Rightarrow> string \<Rightarrow> 'v list \<Rightarrow> 'v world \<Rightarrow> failure + 'v world" where
  "log_Printf a format v w = log_Output a (Printf format v) w"

definition log_Println :: "ref \<Rightarrow> 'v list \<Rightarrow> 'v world \<Rightarrow> failure + 'v world" where
  "log_Println a v w = log_Output a (Println v) w"

text \<open>The three setters the package documentation uses to reconfigure one sub-logger.\<close>

definition log_SetOutput :: "ref \<Rightarrow> writer \<Rightarrow> 'v world \<Rightarrow> failure + 'v world" where
  "log_SetOutput a d w =
     (case deref w a of
        None \<Rightarrow> Inl NilDereference
      | Some g \<Rightarrow> Inr (w\<lparr>objs := (objs w)[a := g\<lparr>out := d\<rparr>]\<rparr>))"

definition log_SetPrefix :: "ref \<Rightarrow> string \<Rightarrow> 'v world \<Rightarrow> failure + 'v world" where
  "log_SetPrefix a p w =
     (case deref w a of
        None \<Rightarrow> Inl NilDereference
      | Some g \<Rightarrow> Inr (w\<lparr>objs := (objs w)[a := g\<lparr>prefix := p\<rparr>]\<rparr>))"

definition log_SetFlags :: "ref \<Rightarrow> int \<Rightarrow> 'v world \<Rightarrow> failure + 'v world" where
  "log_SetFlags a f w =
     (case deref w a of
        None \<Rightarrow> Inl NilDereference
      | Some g \<Rightarrow> Inr (w\<lparr>objs := (objs w)[a := g\<lparr>flag := f\<rparr>]\<rparr>))"

section \<open>Package twigsnake\<close>

text \<open>
  Levels are Go \<open>int\<close>s. The package compares them and never computes with them, so they are
  modelled as integers without a bound. The methods have a pointer receiver; the model passes
  the struct in and, where a method assigns to it, returns the struct after the call.
\<close>

definition LOG_EMERG :: int where "LOG_EMERG = 0"
definition LOG_ALERT :: int where "LOG_ALERT = 1"
definition LOG_CRIT :: int where "LOG_CRIT = 2"
definition LOG_ERROR :: int where "LOG_ERROR = 3"
definition LOG_WARN :: int where "LOG_WARN = 4"
definition LOG_NOTICE :: int where "LOG_NOTICE = 5"
definition LOG_INFO :: int where "LOG_INFO = 6"
definition LOG_DEBUG :: int where "LOG_DEBUG = 7"

record Logger =
  logLevel :: int
  EmergLogger :: ref
  AlertLogger :: ref
  CritLogger :: ref
  ErrorLogger :: ref
  WarningLogger :: ref
  NoticeLogger :: ref
  InfoLogger :: ref
  DebugLogger :: ref

datatype error = errors_New string

definition checkLogLevel :: "int \<Rightarrow> error option" where
  "checkLogLevel lvl =
     (if \<not> (lvl \<ge> 0 \<and> lvl \<le> 7) then Some (errors_New ''invalid severity level'') else None)"

definition New :: "int \<Rightarrow> writer \<Rightarrow> 'v world \<Rightarrow> (error + Logger) \<times> 'v world" where
  "New lvl dest w =
     (case checkLogLevel lvl of
        Some err \<Rightarrow> (Inl err, w)
      | None \<Rightarrow>
          (let (r0, w0) = log_New dest ''[EMERG] '' (Ldate OR Ltime OR Lmsgprefix) w;
               (r1, w1) = log_New dest ''[ALERT] '' (Ldate OR Ltime OR Lmsgprefix) w0;
               (r2, w2) = log_New dest ''[CRIT] '' (Ldate OR Ltime OR Lmsgprefix) w1;
               (r3, w3) = log_New dest ''[ERROR] '' (Ldate OR Ltime OR Lmsgprefix) w2;
               (r4, w4) = log_New dest ''[WARN] '' (Ldate OR Ltime OR Lmsgprefix) w3;
               (r5, w5) = log_New dest ''[NOTICE] '' (Ldate OR Ltime OR Lmsgprefix) w4;
               (r6, w6) = log_New dest ''[INFO] '' (Ldate OR Ltime OR Lmsgprefix) w5;
               (r7, w7) = log_New dest ''[DEBUG] '' (Ldate OR Ltime OR Lmsgprefix) w6
           in (Inr \<lparr>logLevel = lvl, EmergLogger = r0, AlertLogger = r1, CritLogger = r2,
                     ErrorLogger = r3, WarningLogger = r4, NoticeLogger = r5,
                     InfoLogger = r6, DebugLogger = r7\<rparr>, w7)))"

definition LogLevel :: "Logger \<Rightarrow> int" where
  "LogLevel l = logLevel l"

definition SetLogLevel :: "Logger \<Rightarrow> int \<Rightarrow> error option \<times> Logger" where
  "SetLogLevel l lvl =
     (case checkLogLevel lvl of
        Some err \<Rightarrow> (Some err, l)
      | None \<Rightarrow> (None, l\<lparr>logLevel := lvl\<rparr>))"

definition Emerg :: "Logger \<Rightarrow> 'v list \<Rightarrow> 'v world \<Rightarrow> failure + 'v world" where
  "Emerg l v w = log_Print (EmergLogger l) v w"

definition Emergf :: "Logger \<Rightarrow> string \<Rightarrow> 'v list \<Rightarrow> 'v world \<Rightarrow> failure + 'v world" where
  "Emergf l format v w = log_Printf (EmergLogger l) format v w"

definition Emergln :: "Logger \<Rightarrow> 'v list \<Rightarrow> 'v world \<Rightarrow> failure + 'v world" where
  "Emergln l v w = log_Println (EmergLogger l) v w"

definition Alert :: "Logger \<Rightarrow> 'v list \<Rightarrow> 'v world \<Rightarrow> failure + 'v world" where
  "Alert l v w = (if logLevel l \<ge> LOG_ALERT then log_Print (AlertLogger l) v w else Inr w)"

definition Alertf :: "Logger \<Rightarrow> string \<Rightarrow> 'v list \<Rightarrow> 'v world \<Rightarrow> failure + 'v world" where
  "Alertf l format v w =
     (if logLevel l \<ge> LOG_ALERT then log_Printf (AlertLogger l) format v w else Inr w)"

definition Alertln :: "Logger \<Rightarrow> 'v list \<Rightarrow> 'v world \<Rightarrow> failure + 'v world" where
  "Alertln l v w = (if logLevel l \<ge> LOG_ALERT then log_Println (AlertLogger l) v w else Inr w)"

definition Crit :: "Logger \<Rightarrow> 'v list \<Rightarrow> 'v world \<Rightarrow> failure + 'v world" where
  "Crit l v w =
     (if logLevel l \<ge> LOG_CRIT then log_Print (CritLogger l) v w else Inr w)"

definition Critf :: "Logger \<Rightarrow> string \<Rightarrow> 'v list \<Rightarrow> 'v world \<Rightarrow> failure + 'v world" where
  "Critf l format v w =
     (if logLevel l \<ge> LOG_CRIT then log_Printf (CritLogger l) format v w else Inr w)"

definition Critln :: "Logger \<Rightarrow> 'v list \<Rightarrow> 'v world \<Rightarrow> failure + 'v world" where
  "Critln l v w =
     (if logLevel l \<ge> LOG_CRIT then log_Println (CritLogger l) v w else Inr w)"

definition Error :: "Logger \<Rightarrow> 'v list \<Rightarrow> 'v world \<Rightarrow> failure + 'v world" where
  "Error l v w =
     (if logLevel l \<ge> LOG_ERROR then log_Print (ErrorLogger l) v w else Inr w)"

definition Errorf :: "Logger \<Rightarrow> string \<Rightarrow> 'v list \<Rightarrow> 'v world \<Rightarrow> failure + 'v world" where
  "Errorf l format v w =
     (if logLevel l \<ge> LOG_ERROR then log_Printf (ErrorLogger l) format v w else Inr w)"

definition Errorln :: "Logger \<Rightarrow> 'v list \<Rightarrow> 'v world \<Rightarrow> failure + 'v world" where
  "Errorln l v w =
     (if logLevel l \<ge> LOG_ERROR then log_Println (ErrorLogger l) v w else Inr w)"

definition Warn :: "Logger \<Rightarrow> 'v list \<Rightarrow> 'v world \<Rightarrow> failure + 'v world" where
  "Warn l v w =
     (if logLevel l \<ge> LOG_WARN then log_Print (WarningLogger l) v w else Inr w)"

definition Warnf :: "Logger \<Rightarrow> string \<Rightarrow> 'v list \<Rightarrow> 'v world \<Rightarrow> failure + 'v world" where
  "Warnf l format v w =
     (if logLevel l \<ge> LOG_WARN then log_Printf (WarningLogger l) format v w else Inr w)"

definition Warnln :: "Logger \<Rightarrow> 'v list \<Rightarrow> 'v world \<Rightarrow> failure + 'v world" where
  "Warnln l v w =
     (if logLevel l \<ge> LOG_WARN then log_Println (WarningLogger l) v w else Inr w)"

definition Notice :: "Logger \<Rightarrow> 'v list \<Rightarrow> 'v world \<Rightarrow> failure + 'v world" where
  "Notice l v w =
     (if logLevel l \<ge> LOG_NOTICE then log_Print (NoticeLogger l) v w else Inr w)"

definition Noticef :: "Logger \<Rightarrow> string \<Rightarrow> 'v list \<Rightarrow> 'v world \<Rightarrow> failure + 'v world" where
  "Noticef l format v w =
     (if logLevel l \<ge> LOG_NOTICE then log_Printf (NoticeLogger l) format v w else Inr w)"

definition Noticeln :: "Logger \<Rightarrow> 'v list \<Rightarrow> 'v world \<Rightarrow> failure + 'v world" where
  "Noticeln l v w =
     (if logLevel l \<ge> LOG_NOTICE then log_Println (NoticeLogger l) v w else Inr w)"

definition Info :: "Logger \<Rightarrow> 'v list \<Rightarrow> 'v world \<Rightarrow> failure + 'v world" where
  "Info l v w =
     (if logLevel l \<ge> LOG_INFO then log_Print (InfoLogger l) v w else Inr w)"

definition Infof :: "Logger \<Rightarrow> string \<Rightarrow> 'v list \<Rightarrow> 'v world \<Rightarrow> failure + 'v world" where
  "Infof l format v w =
     (if logLevel l \<ge> LOG_INFO then log_Printf (InfoLogger l) format v w else Inr w)"

definition Infoln :: "Logger \<Rightarrow> 'v list \<Rightarrow> 'v world \<Rightarrow> failure + 'v world" where
  "Infoln l v w =
     (if logLevel l \<ge> LOG_INFO then log_Println (InfoLogger l) v w else Inr w)"

definition Debug :: "Logger \<Rightarrow> 'v list \<Rightarrow> 'v world \<Rightarrow> failure + 'v world" where
  "Debug l v w =
     (if logLevel l \<ge> LOG_DEBUG then log_Print (DebugLogger l) v w else Inr w)"

definition Debugf :: "Logger \<Rightarrow> string \<Rightarrow> 'v list \<Rightarrow> 'v world \<Rightarrow> failure + 'v world" where
  "Debugf l format v w =
     (if logLevel l \<ge> LOG_DEBUG then log_Printf (DebugLogger l) format v w else Inr w)"

definition Debugln :: "Logger \<Rightarrow> 'v list \<Rightarrow> 'v world \<Rightarrow> failure + 'v world" where
  "Debugln l v w =
     (if logLevel l \<ge> LOG_DEBUG then log_Println (DebugLogger l) v w else Inr w)"

section \<open>The entry points, addressed uniformly\<close>

text \<open>
  The source has one method per severity and print variant. To state a property of all of
  them at once, a severity and a print call select the method; nothing here adds behaviour.
\<close>

datatype severity =
  SevEmerg | SevAlert | SevCrit | SevError | SevWarn | SevNotice | SevInfo | SevDebug

fun rank :: "severity \<Rightarrow> int" where
  "rank SevEmerg = LOG_EMERG"
| "rank SevAlert = LOG_ALERT"
| "rank SevCrit = LOG_CRIT"
| "rank SevError = LOG_ERROR"
| "rank SevWarn = LOG_WARN"
| "rank SevNotice = LOG_NOTICE"
| "rank SevInfo = LOG_INFO"
| "rank SevDebug = LOG_DEBUG"

fun sub_logger :: "Logger \<Rightarrow> severity \<Rightarrow> ref" where
  "sub_logger l SevEmerg = EmergLogger l"
| "sub_logger l SevAlert = AlertLogger l"
| "sub_logger l SevCrit = CritLogger l"
| "sub_logger l SevError = ErrorLogger l"
| "sub_logger l SevWarn = WarningLogger l"
| "sub_logger l SevNotice = NoticeLogger l"
| "sub_logger l SevInfo = InfoLogger l"
| "sub_logger l SevDebug = DebugLogger l"

fun emit :: "severity \<Rightarrow> 'v print_call \<Rightarrow> Logger \<Rightarrow> 'v world \<Rightarrow> failure + 'v world" where
  "emit SevEmerg (Print v) l w = Emerg l v w"
| "emit SevEmerg (Printf format v) l w = Emergf l format v w"
| "emit SevEmerg (Println v) l w = Emergln l v w"
| "emit SevAlert (Print v) l w = Alert l v w"
| "emit SevAlert (Printf format v) l w = Alertf l format v w"
| "emit SevAlert (Println v) l w = Alertln l v w"
| "emit SevCrit (Print v) l w = Crit l v w"
| "emit SevCrit (Printf format v) l w = Critf l format v w"
| "emit SevCrit (Println v) l w = Critln l v w"
| "emit SevError (Print v) l w = Error l v w"
| "emit SevError (Printf format v) l w = Errorf l format v w"
| "emit SevError (Println v) l w = Errorln l v w"
| "emit SevWarn (Print v) l w = Warn l v w"
| "emit SevWarn (Printf format v) l w = Warnf l format v w"
| "emit SevWarn (Println v) l w = Warnln l v w"
| "emit SevNotice (Print v) l w = Notice l v w"
| "emit SevNotice (Printf format v) l w = Noticef l format v w"
| "emit SevNotice (Println v) l w = Noticeln l v w"
| "emit SevInfo (Print v) l w = Info l v w"
| "emit SevInfo (Printf format v) l w = Infof l format v w"
| "emit SevInfo (Println v) l w = Infoln l v w"
| "emit SevDebug (Print v) l w = Debug l v w"
| "emit SevDebug (Printf format v) l w = Debugf l format v w"
| "emit SevDebug (Println v) l w = Debugln l v w"

text \<open>A caller reconfigures one sub-logger through its exported handle.\<close>

datatype reconfig = SetOutput writer | SetPrefix string | SetFlags int

fun reconfigure :: "ref \<Rightarrow> reconfig \<Rightarrow> 'v world \<Rightarrow> failure + 'v world" where
  "reconfigure a (SetOutput d) w = log_SetOutput a d w"
| "reconfigure a (SetPrefix p) w = log_SetPrefix a p w"
| "reconfigure a (SetFlags f) w = log_SetFlags a f w"

text \<open>
  One call on a logger: the two threshold accessors, an emission, or a reconfiguration of one
  sub-logger. A step returns what the call returns, the logger struct and the store after it.
\<close>

datatype 'v op =
    Op_LogLevel
  | Op_SetLogLevel int
  | Op_Emit severity "'v print_call"
  | Op_Reconfigure severity reconfig

datatype reply = Level int | Status "error option" | Done

fun step :: "'v op \<Rightarrow> Logger \<times> 'v world \<Rightarrow> failure + (reply \<times> Logger \<times> 'v world)" where
  "step Op_LogLevel (l, w) = Inr (Level (LogLevel l), l, w)"
| "step (Op_SetLogLevel lvl) (l, w) =
     Inr (Status (fst (SetLogLevel l lvl)), snd (SetLogLevel l lvl), w)"
| "step (Op_Emit S c) (l, w) =
     (case emit S c l w of Inl f \<Rightarrow> Inl f | Inr w' \<Rightarrow> Inr (Done, l, w'))"
| "step (Op_Reconfigure S k) (l, w) =
     (case reconfigure (sub_logger l S) k w of Inl f \<Rightarrow> Inl f | Inr w' \<Rightarrow> Inr (Done, l, w'))"

fun run :: "'v op list \<Rightarrow> Logger \<times> 'v world \<Rightarrow> failure + (Logger \<times> 'v world)" where
  "run [] s = Inr s"
| "run (x # xs) s = (case step x s of Inl f \<Rightarrow> Inl f | Inr (r, s') \<Rightarrow> run xs s')"

text \<open>What one emission hands to the writers: the entries it adds to the trace.\<close>

definition emitted :: "severity \<Rightarrow> 'v print_call \<Rightarrow> Logger \<Rightarrow> 'v world \<Rightarrow> failure + 'v entry list" where
  "emitted S c l w =
     (case emit S c l w of Inl f \<Rightarrow> Inl f | Inr w' \<Rightarrow> Inr (drop (length (trace w)) (trace w')))"

text \<open>
  The handles of a logger are sound in a store when each points at an object and no two of
  them point at the same one.
\<close>

definition handles :: "Logger \<Rightarrow> ref list" where
  "handles l = [EmergLogger l, AlertLogger l, CritLogger l, ErrorLogger l,
                WarningLogger l, NoticeLogger l, InfoLogger l, DebugLogger l]"

definition sound :: "Logger \<Rightarrow> 'v world \<Rightarrow> bool" where
  "sound l w = (list_all (\<lambda>a. a < length (objs w)) (handles l) \<and> distinct (handles l))"

definition valid_level :: "int \<Rightarrow> bool" where
  "valid_level lvl = (0 \<le> lvl \<and> lvl \<le> 7)"

section \<open>Package nlog\<close>

text \<open>The second package declares the same constants, struct and methods under its own names.\<close>

definition nlog_LOG_EMERG :: int where "nlog_LOG_EMERG = 0"
definition nlog_LOG_ALERT :: int where "nlog_LOG_ALERT = 1"
definition nlog_LOG_CRIT :: int where "nlog_LOG_CRIT = 2"
definition nlog_LOG_ERROR :: int where "nlog_LOG_ERROR = 3"
definition nlog_LOG_WARN :: int where "nlog_LOG_WARN = 4"
definition nlog_LOG_NOTICE :: int where "nlog_LOG_NOTICE = 5"
definition nlog_LOG_INFO :: int where "nlog_LOG_INFO = 6"
definition nlog_LOG_DEBUG :: int where "nlog_LOG_DEBUG = 7"

record NLog =
  logLevel :: int
  EmergLogger :: ref
  AlertLogger :: ref
  CritLogger :: ref
  ErrorLogger :: ref
  WarningLogger :: ref
  NoticeLogger :: ref
  InfoLogger :: ref
  DebugLogger :: ref

definition nlog_checkLogLevel :: "int \<Rightarrow> error option" where
  "nlog_checkLogLevel lvl =
     (if \<not> (lvl \<ge> 0 \<and> lvl \<le> 7) then Some (errors_New ''invalid severity level'') else None)"

definition nlog_New :: "int \<Rightarrow> writer \<Rightarrow> 'v world \<Rightarrow> (error + NLog) \<times> 'v world" where
  "nlog_New lvl dest w =
     (case nlog_checkLogLevel lvl of
        Some err \<Rightarrow> (Inl err, w)
      | None \<Rightarrow>
          (let (r0, w0) = log_New dest ''[EMERG] '' (Ldate OR Ltime OR Lmsgprefix) w;
               (r1, w1) = log_New dest ''[ALERT] '' (Ldate OR Ltime OR Lmsgprefix) w0;
               (r2, w2) = log_New dest ''[CRIT] '' (Ldate OR Ltime OR Lmsgprefix) w1;
               (r3, w3) = log_New dest ''[ERROR] '' (Ldate OR Ltime OR Lmsgprefix) w2;
               (r4, w4) = log_New dest ''[WARN] '' (Ldate OR Ltime OR Lmsgprefix) w3;
               (r5, w5) = log_New dest ''[NOTICE] '' (Ldate OR Ltime OR Lmsgprefix) w4;
               (r6, w6) = log_New dest ''[INFO] '' (Ldate OR Ltime OR Lmsgprefix) w5;
               (r7, w7) = log_New dest ''[DEBUG] '' (Ldate OR Ltime OR Lmsgprefix) w6
           in (Inr \<lparr>logLevel = lvl, EmergLogger = r0, AlertLogger = r1, CritLogger = r2,
                     ErrorLogger = r3, WarningLogger = r4, NoticeLogger = r5,
                     InfoLogger = r6, DebugLogger = r7\<rparr>, w7)))"

definition nlog_LogLevel :: "NLog \<Rightarrow> int" where
  "nlog_LogLevel n = logLevel n"

definition nlog_SetLogLevel :: "NLog \<Rightarrow> int \<Rightarrow> error option \<times> NLog" where
  "nlog_SetLogLevel n lvl =
     (case nlog_checkLogLevel lvl of
        Some err \<Rightarrow> (Some err, n)
      | None \<Rightarrow> (None, n\<lparr>logLevel := lvl\<rparr>))"

definition nlog_Emerg :: "NLog \<Rightarrow> 'v list \<Rightarrow> 'v world \<Rightarrow> failure + 'v world" where
  "nlog_Emerg n v w = log_Print (EmergLogger n) v w"

definition nlog_Emergf :: "NLog \<Rightarrow> string \<Rightarrow> 'v list \<Rightarrow> 'v world \<Rightarrow> failure + 'v world" where
  "nlog_Emergf n format v w = log_Printf (EmergLogger n) format v w"

definition nlog_Emergln :: "NLog \<Rightarrow> 'v list \<Rightarrow> 'v world \<Rightarrow> failure + 'v world" where
  "nlog_Emergln n v w = log_Println (EmergLogger n) v w"

definition nlog_Alert :: "NLog \<Rightarrow> 'v list \<Rightarrow> 'v world \<Rightarrow> failure + 'v world" where
  "nlog_Alert n v w =
     (if logLevel n \<ge> nlog_LOG_ALERT then log_Print (AlertLogger n) v w else Inr w)"

definition nlog_Alertf :: "NLog \<Rightarrow> string \<Rightarrow> 'v list \<Rightarrow> 'v world \<Rightarrow> failure + 'v world" where
  "nlog_Alertf n format v w =
     (if logLevel n \<ge> nlog_LOG_ALERT then log_Printf (AlertLogger n) format v w else Inr w)"

definition nlog_Alertln :: "NLog \<Rightarrow> 'v list \<Rightarrow> 'v world \<Rightarrow> failure + 'v world" where
  "nlog_Alertln n v w =
     (if logLevel n \<ge> nlog_LOG_ALERT then log_Println (AlertLogger n) v w else Inr w)"

definition nlog_Crit :: "NLog \<Rightarrow> 'v list \<Rightarrow> 'v world \<Rightarrow> failure + 'v world" where
  "nlog_Crit n v w =
     (if logLevel n \<ge> nlog_LOG_CRIT then log_Print (CritLogger n) v w else Inr w)"

definition nlog_Critf :: "NLog \<Rightarrow> string \<Rightarrow> 'v list \<Rightarrow> 'v world \<Rightarrow> failure + 'v world" where
  "nlog_Critf n format v w =
     (if logLevel n \<ge> nlog_LOG_CRIT then log_Printf (CritLogger n) format v w else Inr w)"

definition nlog_Critln :: "NLog \<Rightarrow> 'v list \<Rightarrow> 'v world \<Rightarrow> failure + 'v world" where
  "nlog_Critln n v w =
     (if logLevel n \<ge> nlog_LOG_CRIT then log_Println (CritLogger n) v w else Inr w)"

definition nlog_Error :: "NLog \<Rightarrow> 'v list \<Rightarrow> 'v world \<Rightarrow> failure + 'v world" where
  "nlog_Error n v w =
     (if logLevel n \<ge> nlog_LOG_ERROR then log_Print (ErrorLogger n) v w else Inr w)"

definition nlog_Errorf :: "NLog \<Rightarrow> string \<Rightarrow> 'v list \<Rightarrow> 'v world \<Rightarrow> failure + 'v world" where
  "nlog_Errorf n format v w =
     (if logLevel n \<ge> nlog_LOG_ERROR then log_Printf (ErrorLogger n) format v w else Inr w)"

text \<open>
  \<open>NLog.Errorln\<close> tests \<open>n.loglLevel\<close>. Go resolves a selector against the fields the struct
  declares, and \<open>NLog\<close> declares one integer field, \<open>logLevel\<close>: the lookup below finds no
  field of the name the method asks for. Go reports this when the package is compiled; the
  model reports it when the method is called, as the failure \<open>UndefinedField\<close>.
\<close>

definition nlog_int_field :: "NLog \<Rightarrow> string \<Rightarrow> int option" where
  "nlog_int_field n name = (if name = ''logLevel'' then Some (logLevel n) else None)"

definition nlog_Errorln :: "NLog \<Rightarrow> 'v list \<Rightarrow> 'v world \<Rightarrow> failure + 'v world" where
  "nlog_Errorln n v w =
     (case nlog_int_field n ''loglLevel'' of
        None \<Rightarrow> Inl (UndefinedField ''loglLevel'')
      | Some x \<Rightarrow> (if x \<ge> nlog_LOG_ERROR then log_Println (ErrorLogger n) v w else Inr w))"

definition nlog_Warn :: "NLog \<Rightarrow> 'v list \<Rightarrow> 'v world \<Rightarrow> failure + 'v world" where
  "nlog_Warn n v w =
     (if logLevel n \<ge> nlog_LOG_WARN then log_Print (WarningLogger n) v w else Inr w)"

definition nlog_Warnf :: "NLog \<Rightarrow> string \<Rightarrow> 'v list \<Rightarrow> 'v world \<Rightarrow> failure + 'v world" where
  "nlog_Warnf n format v w =
     (if logLevel n \<ge> nlog_LOG_WARN then log_Printf (WarningLogger n) format v w else Inr w)"

definition nlog_Warnln :: "NLog \<Rightarrow> 'v list \<Rightarrow> 'v world \<Rightarrow> failure + 'v world" where
  "nlog_Warnln n v w =
     (if logLevel n \<ge> nlog_LOG_WARN then log_Println (WarningLogger n) v w else Inr w)"

definition nlog_Notice :: "NLog \<Rightarrow> 'v list \<Rightarrow> 'v world \<Rightarrow> failure + 'v world" where
  "nlog_Notice n v w =
     (if logLevel n \<ge> nlog_LOG_NOTICE then log_Print (NoticeLogger n) v w else Inr w)"

definition nlog_Noticef :: "NLog \<Rightarrow> string \<Rightarrow> 'v list \<Rightarrow> 'v world \<Rightarrow> failure + 'v world" where
  "nlog_Noticef n format v w =
     (if logLevel n \<ge> nlog_LOG_NOTICE then log_Printf (NoticeLogger n) format v w else Inr w)"

definition nlog_Noticeln :: "NLog \<Rightarrow> 'v list \<Rightarrow> 'v world \<Rightarrow> failure + 'v world" where
  "nlog_Noticeln n v w =
     (if logLevel n \<ge> nlog_LOG_NOTICE then log_Println (NoticeLogger n) v w else Inr w)"

definition nlog_Info :: "NLog \<Rightarrow> 'v list \<Rightarrow> 'v world \<Rightarrow> failure + 'v world" where
  "nlog_Info n v w =
     (if logLevel n \<ge> nlog_LOG_INFO then log_Print (InfoLogger n) v w else Inr w)"

definition nlog_Infof :: "NLog \<Rightarrow> string \<Rightarrow> 'v list \<Rightarrow> 'v world \<Rightarrow> failure + 'v world" where
  "nlog_Infof n format v w =
     (if logLevel n \<ge> nlog_LOG_INFO then log_Printf (InfoLogger n) format v w else Inr w)"

definition nlog_Infoln :: "NLog \<Rightarrow> 'v list \<Rightarrow> 'v world \<Rightarrow> failure + 'v world" where
  "nlog_Infoln n v w =
     (if logLevel n \<ge> nlog_LOG_INFO then log_Println (InfoLogger n) v w else Inr w)"

definition nlog_Debug :: "NLog \<Rightarrow> 'v list \<Rightarrow> 'v world \<Rightarrow> failure + 'v world" where
  "nlog_Debug n v w =
     (if logLevel n \<ge> nlog_LOG_DEBUG then log_Print (DebugLogger n) v w else Inr w)"

definition nlog_Debugf :: "NLog \<Rightarrow> string \<Rightarrow> 'v list \<Rightarrow> 'v world \<Rightarrow> failure + 'v world" where
  "nlog_Debugf n format v w =
     (if logLevel n \<ge> nlog_LOG_DEBUG then log_Printf (DebugLogger n) format v w else Inr w)"

definition nlog_Debugln :: "NLog \<Rightarrow> 'v list \<Rightarrow> 'v world \<Rightarrow> failure + 'v world" where
  "nlog_Debugln n v w =
     (if logLevel n \<ge> nlog_LOG_DEBUG then log_Println (DebugLogger n) v w else Inr w)"

section \<open>The entry points of nlog, addressed uniformly\<close>

fun nlog_sub_logger :: "NLog \<Rightarrow> severity \<Rightarrow> ref" where
  "nlog_sub_logger n SevEmerg = EmergLogger n"
| "nlog_sub_logger n SevAlert = AlertLogger n"
| "nlog_sub_logger n SevCrit = CritLogger n"
| "nlog_sub_logger n SevError = ErrorLogger n"
| "nlog_sub_logger n SevWarn = WarningLogger n"
| "nlog_sub_logger n SevNotice = NoticeLogger n"
| "nlog_sub_logger n SevInfo = InfoLogger n"
| "nlog_sub_logger n SevDebug = DebugLogger n"

fun nlog_emit :: "severity \<Rightarrow> 'v print_call \<Rightarrow> NLog \<Rightarrow> 'v world \<Rightarrow> failure + 'v world" where
  "nlog_emit SevEmerg (Print v) n w = nlog_Emerg n v w"
| "nlog_emit SevEmerg (Printf format v) n w = nlog_Emergf n format v w"
| "nlog_emit SevEmerg (Println v) n w = nlog_Emergln n v w"
| "nlog_emit SevAlert (Print v) n w = nlog_Alert n v w"
| "nlog_emit SevAlert (Printf format v) n w = nlog_Alertf n format v w"
| "nlog_emit SevAlert (Println v) n w = nlog_Alertln n v w"
| "nlog_emit SevCrit (Print v) n w = nlog_Crit n v w"
| "nlog_emit SevCrit (Printf format v) n w = nlog_Critf n format v w"
| "nlog_emit SevCrit (Println v) n w = nlog_Critln n v w"
| "nlog_emit SevError (Print v) n w = nlog_Error n v w"
| "nlog_emit SevError (Printf format v) n w = nlog_Errorf n format v w"
| "nlog_emit SevError (Println v) n w = nlog_Errorln n v w"
| "nlog_emit SevWarn (Print v) n w = nlog_Warn n v w"
| "nlog_emit SevWarn (Printf format v) n w = nlog_Warnf n format v w"
| "nlog_emit SevWarn (Println v) n w = nlog_Warnln n v w"
| "nlog_emit SevNotice (Print v) n w = nlog_Notice n v w"
| "nlog_emit SevNotice (Printf format v) n w = nlog_Noticef n format v w"
| "nlog_emit SevNotice (Println v) n w = nlog_Noticeln n v w"
| "nlog_emit SevInfo (Print v) n w = nlog_Info n v w"
| "nlog_emit SevInfo (Printf format v) n w = nlog_Infof n format v w"
| "nlog_emit SevInfo (Println v) n w = nlog_Infoln n v w"
| "nlog_emit SevDebug (Print v) n w = nlog_Debug n v w"
| "nlog_emit SevDebug (Printf format v) n w = nlog_Debugf n format v w"
| "nlog_emit SevDebug (Println v) n w = nlog_Debugln n v w"

fun nlog_step :: "'v op \<Rightarrow> NLog \<times> 'v world \<Rightarrow> failure + (reply \<times> NLog \<times> 'v world)" where
  "nlog_step Op_LogLevel (n, w) = Inr (Level (nlog_LogLevel n), n, w)"
| "nlog_step (Op_SetLogLevel lvl) (n, w) =
     Inr (Status (fst (nlog_SetLogLevel n lvl)), snd (nlog_SetLogLevel n lvl), w)"
| "nlog_step (Op_Emit S c) (n, w) =
     (case nlog_emit S c n w of Inl f \<Rightarrow> Inl f | Inr w' \<Rightarrow> Inr (Done, n, w'))"
| "nlog_step (Op_Reconfigure S k) (n, w) =
     (case reconfigure (nlog_sub_logger n S) k w of
        Inl f \<Rightarrow> Inl f
      | Inr w' \<Rightarrow> Inr (Done, n, w'))"

fun nlog_run :: "'v op list \<Rightarrow> NLog \<times> 'v world \<Rightarrow> failure + (NLog \<times> 'v world)" where
  "nlog_run [] s = Inr s"
| "nlog_run (x # xs) s = (case nlog_step x s of Inl f \<Rightarrow> Inl f | Inr (r, s') \<Rightarrow> nlog_run xs s')"

text \<open>The two structs declare the same fields; this reads an \<open>NLog\<close> as a \<open>Logger\<close>.\<close>

definition as_Logger :: "NLog \<Rightarrow> Logger" where
  "as_Logger n =
     \<lparr>Logger.logLevel = NLog.logLevel n,
      Logger.EmergLogger = NLog.EmergLogger n,
      Logger.AlertLogger = NLog.AlertLogger n,
      Logger.CritLogger = NLog.CritLogger n,
      Logger.ErrorLogger = NLog.ErrorLogger n,
      Logger.WarningLogger = NLog.WarningLogger n,
      Logger.NoticeLogger = NLog.NoticeLogger n,
      Logger.InfoLogger = NLog.InfoLogger n,
      Logger.DebugLogger = NLog.DebugLogger n\<rparr>"

text \<open>A store with no object and nothing written yet, for the worked examples.\<close>

definition empty_world :: "string world" where
  "empty_world = \<lparr>objs = [], trace = []\<rparr>"

section \<open>Basic facts about the model\<close>

lemmas LOG_defs = LOG_EMERG_def LOG_ALERT_def LOG_CRIT_def LOG_ERROR_def
  LOG_WARN_def LOG_NOTICE_def LOG_INFO_def LOG_DEBUG_def

lemmas print_defs = log_Print_def log_Printf_def log_Println_def

lemmas method_defs =
  Emerg_def Emergf_def Emergln_def Alert_def Alertf_def Alertln_def
  Crit_def Critf_def Critln_def Error_def Errorf_def Errorln_def
  Warn_def Warnf_def Warnln_def Notice_def Noticef_def Noticeln_def
  Info_def Infof_def Infoln_def Debug_def Debugf_def Debugln_def

lemma New_success:
  "0 \<le> lvl \<Longrightarrow> lvl \<le> 7 \<Longrightarrow>
   New lvl dest w =
     (Inr \<lparr>Logger.logLevel = lvl,
           Logger.EmergLogger = length (objs w),
           Logger.AlertLogger = length (objs w) + 1,
           Logger.CritLogger = length (objs w) + 2,
           Logger.ErrorLogger = length (objs w) + 3,
           Logger.WarningLogger = length (objs w) + 4,
           Logger.NoticeLogger = length (objs w) + 5,
           Logger.InfoLogger = length (objs w) + 6,
           Logger.DebugLogger = length (objs w) + 7\<rparr>,
      w\<lparr>objs := objs w @
        [\<lparr>out = dest, prefix = ''[EMERG] '', flag = Ldate OR Ltime OR Lmsgprefix\<rparr>,
         \<lparr>out = dest, prefix = ''[ALERT] '', flag = Ldate OR Ltime OR Lmsgprefix\<rparr>,
         \<lparr>out = dest, prefix = ''[CRIT] '', flag = Ldate OR Ltime OR Lmsgprefix\<rparr>,
         \<lparr>out = dest, prefix = ''[ERROR] '', flag = Ldate OR Ltime OR Lmsgprefix\<rparr>,
         \<lparr>out = dest, prefix = ''[WARN] '', flag = Ldate OR Ltime OR Lmsgprefix\<rparr>,
         \<lparr>out = dest, prefix = ''[NOTICE] '', flag = Ldate OR Ltime OR Lmsgprefix\<rparr>,
         \<lparr>out = dest, prefix = ''[INFO] '', flag = Ldate OR Ltime OR Lmsgprefix\<rparr>,
         \<lparr>out = dest, prefix = ''[DEBUG] '', flag = Ldate OR Ltime OR Lmsgprefix\<rparr>]\<rparr>)"
  by (simp add: New_def checkLogLevel_def log_New_def)

lemma New_failure:
  "\<not> (0 \<le> lvl \<and> lvl \<le> 7) \<Longrightarrow> New lvl dest w = (Inl (errors_New ''invalid severity level''), w)"
  by (simp add: New_def checkLogLevel_def)

lemma emit_filter:
  "0 \<le> LogLevel l \<Longrightarrow>
   emit S c l w = (if LogLevel l \<ge> rank S then log_Output (sub_logger l S) c w else Inr w)"
  by (cases S; cases c) (simp_all add: method_defs print_defs LOG_defs LogLevel_def)

lemma sound_allocated: "sound l w \<Longrightarrow> sub_logger l S < length (objs w)"
  by (cases S) (simp_all add: sound_def handles_def)

lemma sound_distinct: "sound l w \<Longrightarrow> S \<noteq> S' \<Longrightarrow> sub_logger l S \<noteq> sub_logger l S'"
  by (cases S; cases S') (auto simp: sound_def handles_def)

lemma New_sound: "New lvl dest w0 = (Inr l, w) \<Longrightarrow> sound l w \<and> valid_level (LogLevel l)"
  by (cases "0 \<le> lvl \<and> lvl \<le> 7")
     (auto simp: New_success New_failure sound_def handles_def valid_level_def LogLevel_def)

lemma log_Output_ok:
  "a < length (objs w) \<Longrightarrow>
   log_Output a c w =
     Inr (w\<lparr>trace := trace w @ [Entry (out (objs w ! a)) (flag (objs w ! a)) (prefix (objs w ! a)) c]\<rparr>)"
  by (simp add: log_Output_def deref_def)

lemma reconfigure_ok:
  "a < length (objs w) \<Longrightarrow>
   reconfigure a k w =
     Inr (w\<lparr>objs := (objs w)[a := (case k of
            SetOutput d \<Rightarrow> (objs w ! a)\<lparr>out := d\<rparr>
          | SetPrefix p \<Rightarrow> (objs w ! a)\<lparr>prefix := p\<rparr>
          | SetFlags f \<Rightarrow> (objs w ! a)\<lparr>flag := f\<rparr>)]\<rparr>)"
  by (cases k) (simp_all add: log_SetOutput_def log_SetPrefix_def log_SetFlags_def deref_def)

lemma SetLogLevel_cases:
  "SetLogLevel l lvl =
     (if 0 \<le> lvl \<and> lvl \<le> 7 then (None, l\<lparr>Logger.logLevel := lvl\<rparr>)
      else (Some (errors_New ''invalid severity level''), l))"
  by (simp add: SetLogLevel_def checkLogLevel_def)

lemma sound_level_update: "sound (l\<lparr>Logger.logLevel := lvl\<rparr>) w = sound l w"
  by (simp add: sound_def handles_def)

lemma sound_trace_update: "sound l (w\<lparr>trace := t\<rparr>) = sound l w"
  by (simp add: sound_def)

lemma sound_objs_update: "sound l (w\<lparr>objs := (objs w)[a := g]\<rparr>) = sound l w"
  by (simp add: sound_def)

lemma step_sound:
  assumes "sound l w" and "valid_level (LogLevel l)"
  shows "\<exists>r l' w'. step x (l, w) = Inr (r, l', w') \<and> sound l' w' \<and> valid_level (LogLevel l')"
proof (cases x)
  case Op_LogLevel
  with assms show ?thesis by simp
next
  case (Op_SetLogLevel lvl)
  with assms show ?thesis
    by (simp add: SetLogLevel_cases sound_level_update valid_level_def LogLevel_def)
next
  case (Op_Emit S c)
  from assms have "0 \<le> LogLevel l" by (simp add: valid_level_def)
  with assms Op_Emit show ?thesis
    by (simp add: emit_filter log_Output_ok sound_allocated sound_trace_update)
next
  case (Op_Reconfigure S k)
  from assms have "sub_logger l S < length (objs w)" by (simp add: sound_allocated)
  with assms Op_Reconfigure show ?thesis
    by (simp add: reconfigure_ok sound_objs_update)
qed

lemma run_sound:
  "sound l w \<Longrightarrow> valid_level (LogLevel l) \<Longrightarrow>
   \<exists>l' w'. run xs (l, w) = Inr (l', w') \<and> sound l' w' \<and> valid_level (LogLevel l')"
proof (induction xs arbitrary: l w)
  case Nil
  then show ?case by simp
next
  case (Cons x xs)
  from step_sound [OF Cons.prems] obtain r l1 w1 where
    s: "step x (l, w) = Inr (r, l1, w1)" "sound l1 w1" "valid_level (LogLevel l1)"
    by blast
  from Cons.IH [OF s(2,3)] s(1) show ?case by simp
qed

lemma constructed_sound:
  assumes "New lvl dest w0 = (Inr l0, w1)" and "run xs (l0, w1) = Inr (l, w)"
  shows "sound l w \<and> valid_level (LogLevel l)"
proof -
  from New_sound [OF assms(1)] have "sound l0 w1" "valid_level (LogLevel l0)" by simp_all
  from run_sound [OF this, of xs] assms(2) show ?thesis by simp
qed

lemma trace_grows: "w \<noteq> w\<lparr>trace := trace w @ [e]\<rparr>"
proof
  assume "w = w\<lparr>trace := trace w @ [e]\<rparr>"
  then have "trace w = trace (w\<lparr>trace := trace w @ [e]\<rparr>)" by simp
  then show False by simp
qed

lemma deref_allocated: "a < length (objs w) \<Longrightarrow> deref w a = Some (objs w ! a)"
  by (simp add: deref_def)

section \<open>The nlog methods against their twigsnake counterparts\<close>

lemmas nlog_LOG_defs = nlog_LOG_EMERG_def nlog_LOG_ALERT_def nlog_LOG_CRIT_def nlog_LOG_ERROR_def
  nlog_LOG_WARN_def nlog_LOG_NOTICE_def nlog_LOG_INFO_def nlog_LOG_DEBUG_def

lemmas nlog_method_defs =
  nlog_Emerg_def nlog_Emergf_def nlog_Emergln_def nlog_Alert_def nlog_Alertf_def nlog_Alertln_def
  nlog_Crit_def nlog_Critf_def nlog_Critln_def nlog_Error_def nlog_Errorf_def
  nlog_Warn_def nlog_Warnf_def nlog_Warnln_def nlog_Notice_def nlog_Noticef_def nlog_Noticeln_def
  nlog_Info_def nlog_Infof_def nlog_Infoln_def nlog_Debug_def nlog_Debugf_def nlog_Debugln_def

lemma nlog_Errorln_fails: "nlog_Errorln n v w = Inl (UndefinedField ''loglLevel'')"
  by (simp add: nlog_Errorln_def nlog_int_field_def)

lemma nlog_emit_agrees:
  "\<not> (S = SevError \<and> (\<exists>v. c = Println v)) \<Longrightarrow> nlog_emit S c n w = emit S c (as_Logger n) w"
  by (cases S; cases c)
     (simp_all add: method_defs nlog_method_defs LOG_defs nlog_LOG_defs as_Logger_def)

lemma nlog_sub_logger_agrees: "nlog_sub_logger n S = sub_logger (as_Logger n) S"
  by (cases S) (simp_all add: as_Logger_def)

lemma nlog_SetLogLevel_agrees:
  "fst (nlog_SetLogLevel n lvl) = fst (SetLogLevel (as_Logger n) lvl) \<and>
   as_Logger (snd (nlog_SetLogLevel n lvl)) = snd (SetLogLevel (as_Logger n) lvl)"
  by (simp add: nlog_SetLogLevel_def nlog_checkLogLevel_def SetLogLevel_cases as_Logger_def)

lemma nlog_New_agrees:
  "nlog_New lvl dest w = (Inr n, w') \<Longrightarrow> New lvl dest w = (Inr (as_Logger n), w')"
  by (cases "0 \<le> lvl \<and> lvl \<le> 7")
     (auto simp: nlog_New_def nlog_checkLogLevel_def log_New_def New_success as_Logger_def)

lemma nlog_step_agrees:
  assumes "nlog_step x (n, w) = Inr (r, n', w')"
  shows "step x (as_Logger n, w) = Inr (r, as_Logger n', w')"
proof (cases x)
  case Op_LogLevel
  with assms show ?thesis by (auto simp: nlog_LogLevel_def LogLevel_def as_Logger_def)
next
  case (Op_SetLogLevel lvl)
  with assms nlog_SetLogLevel_agrees [of n lvl] show ?thesis by auto
next
  case (Op_Emit S c)
  show ?thesis
  proof (cases "S = SevError \<and> (\<exists>v. c = Println v)")
    case True
    with assms Op_Emit show ?thesis by (auto simp: nlog_Errorln_fails)
  next
    case False
    from nlog_emit_agrees [OF False] assms Op_Emit show ?thesis
      by (auto split: sum.splits)
  qed
next
  case (Op_Reconfigure S k)
  with assms show ?thesis by (auto simp: nlog_sub_logger_agrees split: sum.splits)
qed

lemma nlog_run_agrees:
  "nlog_run xs (n, w) = Inr (n', w') \<Longrightarrow> run xs (as_Logger n, w) = Inr (as_Logger n', w')"
proof (induction xs arbitrary: n w)
  case Nil
  then show ?case by simp
next
  case (Cons x xs)
  from Cons.prems obtain r n1 w1 where
    s: "nlog_step x (n, w) = Inr (r, n1, w1)" and t: "nlog_run xs (n1, w1) = Inr (n', w')"
    by (auto split: sum.splits)
  from nlog_step_agrees [OF s] Cons.IH [OF t] show ?case by simp
qed

lemma emit_keeps_objs: "emit S c l w = Inr w' \<Longrightarrow> objs w' = objs w"
  by (cases S; cases c)
     (auto simp: method_defs print_defs log_Output_def split: if_splits option.splits)

lemma flags_value: "Ldate OR Ltime OR Lmsgprefix = 67"
  by (simp add: Ldate_def Ltime_def Lmsgprefix_def)

section \<open>The filtering rule\<close>

text \<open>
  C1. Take a logger returned by \<open>New\<close> and used through any sequence of calls. Its threshold
  \<open>T\<close> is one of 0..7, and for every severity \<open>S\<close> and each of the three print variants the
  emission at \<open>S\<close> is the print call on the sub-logger of \<open>S\<close> if and only if \<open>T \<ge> S\<close>: then
  exactly one entry, with that sub-logger's writer, flags and prefix, is added to the trace, and
  otherwise nothing changes.
\<close>

theorem emission_iff_threshold:
  assumes "New lvl dest w0 = (Inr l0, w1)" and "run xs (l0, w1) = Inr (l, w)"
  shows "valid_level (LogLevel l) \<and>
         ((emit S c l w = log_Output (sub_logger l S) c w) = (LogLevel l \<ge> rank S)) \<and>
         (\<exists>g. deref w (sub_logger l S) = Some g \<and>
              emit S c l w =
                Inr (if LogLevel l \<ge> rank S
                     then w\<lparr>trace := trace w @ [Entry (out g) (flag g) (prefix g) c]\<rparr>
                     else w))"
proof -
  from constructed_sound [OF assms] have s: "sound l w" and v: "valid_level (LogLevel l)"
    by simp_all
  from v have nonneg: "0 \<le> LogLevel l" by (simp add: valid_level_def)
  from s have a: "sub_logger l S < length (objs w)" by (rule sound_allocated)
  have neq: "Inr w \<noteq> log_Output (sub_logger l S) c w"
    using trace_grows [of w] by (simp add: log_Output_ok [OF a])
  show ?thesis
    using v neq
    by (simp add: emit_filter [OF nonneg] log_Output_ok [OF a] deref_allocated [OF a])
qed

theorem emission_iff_threshold_witness:
  "\<exists>l0 w1 l w. New 6 0 empty_world = (Inr l0, w1) \<and>
     run [Op_SetLogLevel 3] (l0, w1) = Inr (l, w) \<and>
     LogLevel l = 3 \<and>
     emit SevWarn (Print [''w'']) l w = Inr w \<and>
     emit SevError (Print [''e'']) l w = log_Output (sub_logger l SevError) (Print [''e'']) w"
proof -
  obtain l0 w1 where n: "New 6 0 empty_world = (Inr l0, w1)" and l0: "LogLevel l0 = 6"
    by (simp add: New_success LogLevel_def)
  obtain l where r: "run [Op_SetLogLevel 3] (l0, w1) = Inr (l, w1)" and l: "LogLevel l = 3"
    by (simp add: SetLogLevel_cases LogLevel_def)
  from emission_iff_threshold [OF n r, of SevWarn "Print [''w'']"] l
  have 1: "emit SevWarn (Print [''w'']) l w1 = Inr w1"
    by (auto simp: LOG_WARN_def)
  from emission_iff_threshold [OF n r, of SevError "Print [''e'']"] l
  have 2: "emit SevError (Print [''e'']) l w1 = log_Output (sub_logger l SevError) (Print [''e'']) w1"
    by (auto simp: LOG_ERROR_def)
  from n r l 1 2 show ?thesis by blast
qed

section \<open>Changing the threshold\<close>

text \<open>
  C2. \<open>SetLogLevel\<close> returns the error exactly when the level is outside 0..7. After a
  rejected call the logger is the one before it, so \<open>LogLevel\<close> returns the old value; after
  an accepted call \<open>LogLevel\<close> returns the new level and every emission filters on it.
\<close>

theorem SetLogLevel_rejects_iff_out_of_range:
  "((fst (SetLogLevel l lvl) = Some (errors_New ''invalid severity level'')) = (\<not> (0 \<le> lvl \<and> lvl \<le> 7)))
   \<and> ((fst (SetLogLevel l lvl) = None) = (0 \<le> lvl \<and> lvl \<le> 7))
   \<and> (fst (SetLogLevel l lvl) \<noteq> None \<longrightarrow>
        snd (SetLogLevel l lvl) = l \<and> LogLevel (snd (SetLogLevel l lvl)) = LogLevel l)
   \<and> (fst (SetLogLevel l lvl) = None \<longrightarrow>
        LogLevel (snd (SetLogLevel l lvl)) = lvl \<and>
        (\<forall>S c w. emit S c (snd (SetLogLevel l lvl)) (w :: 'v world) =
           (if lvl \<ge> rank S then log_Output (sub_logger l S) c w else Inr w)))"
proof (cases "0 \<le> lvl \<and> lvl \<le> 7")
  case True
  have h: "sub_logger (l\<lparr>Logger.logLevel := lvl\<rparr>) S = sub_logger l S" for S
    by (cases S) simp_all
  have nonneg: "0 \<le> LogLevel (l\<lparr>Logger.logLevel := lvl\<rparr>)"
    using True by (simp add: LogLevel_def)
  have e: "emit S c (l\<lparr>Logger.logLevel := lvl\<rparr>) w =
             (if lvl \<ge> rank S then log_Output (sub_logger l S) c w else Inr w)"
    for S c and w :: "'v world"
    using emit_filter [OF nonneg, of S c w] h [of S] by (simp add: LogLevel_def)
  from True show ?thesis
    by (simp add: SetLogLevel_cases LogLevel_def e)
next
  case False
  then show ?thesis by (simp add: SetLogLevel_cases)
qed

theorem SetLogLevel_rejects_iff_out_of_range_witness:
  "\<exists>l0 w1. New 6 0 empty_world = (Inr l0, w1) \<and>
     fst (SetLogLevel l0 9) = Some (errors_New ''invalid severity level'') \<and>
     LogLevel (snd (SetLogLevel l0 9)) = 6 \<and>
     fst (SetLogLevel l0 7) = None \<and>
     LogLevel (snd (SetLogLevel l0 7)) = 7 \<and>
     emit SevDebug (Print [''d'']) (snd (SetLogLevel l0 7)) w1 =
       log_Output (sub_logger l0 SevDebug) (Print [''d'']) w1"
proof -
  obtain l0 w1 where n: "New 6 0 empty_world = (Inr l0, w1)" and l0: "LogLevel l0 = 6"
    by (simp add: New_success LogLevel_def)
  from SetLogLevel_rejects_iff_out_of_range [of l0 9] l0
  have 1: "fst (SetLogLevel l0 9) = Some (errors_New ''invalid severity level'')"
    and 2: "LogLevel (snd (SetLogLevel l0 9)) = 6"
    by auto
  note t = SetLogLevel_rejects_iff_out_of_range [of l0 7, where ?'v = string]
  from t have 3: "fst (SetLogLevel l0 7) = None" by simp
  from t 3 have 4: "LogLevel (snd (SetLogLevel l0 7)) = 7" by simp
  from t 3 have "\<forall>S c (w :: string world). emit S c (snd (SetLogLevel l0 7)) w =
      (if 7 \<ge> rank S then log_Output (sub_logger l0 S) c w else Inr w)"
    by simp
  then have "emit SevDebug (Print [''d'']) (snd (SetLogLevel l0 7)) w1 =
      (if 7 \<ge> rank SevDebug then log_Output (sub_logger l0 SevDebug) (Print [''d'']) w1
       else Inr w1)"
    by blast
  then have 5: "emit SevDebug (Print [''d'']) (snd (SetLogLevel l0 7)) w1 =
      log_Output (sub_logger l0 SevDebug) (Print [''d'']) w1"
    by (simp add: LOG_DEBUG_def del: emit.simps sub_logger.simps)
  from n 1 2 3 4 5 show ?thesis by blast
qed

section \<open>Construction\<close>

text \<open>
  C3. \<open>New\<close> returns the error, and no logger, exactly when the level is outside 0..7; the
  store is then untouched. Otherwise it returns a logger whose \<open>LogLevel\<close> is the level given.
\<close>

theorem New_rejects_iff_out_of_range:
  "((\<exists>err. fst (New lvl dest w) = Inl err) = (\<not> (0 \<le> lvl \<and> lvl \<le> 7)))
   \<and> (\<not> (0 \<le> lvl \<and> lvl \<le> 7) \<longrightarrow>
        New lvl dest w = (Inl (errors_New ''invalid severity level''), w))
   \<and> (0 \<le> lvl \<and> lvl \<le> 7 \<longrightarrow>
        (\<exists>l w'. New lvl dest w = (Inr l, w') \<and> LogLevel l = lvl))"
proof (cases "0 \<le> lvl \<and> lvl \<le> 7")
  case True
  then show ?thesis by (simp add: New_success LogLevel_def)
next
  case False
  then show ?thesis by (auto simp: New_failure)
qed

theorem New_rejects_iff_out_of_range_witness:
  "New 8 0 empty_world = (Inl (errors_New ''invalid severity level''), empty_world) \<and>
   New (- 1) 0 empty_world = (Inl (errors_New ''invalid severity level''), empty_world) \<and>
   (\<exists>l w'. New 7 0 empty_world = (Inr l, w') \<and> LogLevel l = 7)"
  using New_rejects_iff_out_of_range [of 8 0 empty_world]
    New_rejects_iff_out_of_range [of "- 1" 0 empty_world]
    New_rejects_iff_out_of_range [of 7 0 empty_world]
  by simp

section \<open>Idempotence of the threshold update\<close>

text \<open>
  C7. Calling \<open>SetLogLevel\<close> twice with the same level leaves the same logger struct
  (threshold and handles) and the same store (the configuration of every sub-logger, and the
  trace) as calling it once, and returns the same status. This holds for every level, valid or
  not.
\<close>

theorem SetLogLevel_idempotent:
  "SetLogLevel (snd (SetLogLevel l T)) T = SetLogLevel l T \<and>
   run [Op_SetLogLevel T, Op_SetLogLevel T] (l, w) = run [Op_SetLogLevel T] (l, w)"
  by (simp add: SetLogLevel_cases)

section \<open>The threshold stays in range\<close>

text \<open>
  C10. From a logger returned by \<open>New\<close>, every finite sequence of calls (threshold reads,
  accepted and rejected threshold updates, emissions, reconfigurations of a sub-logger) runs to
  its end without a panic and leaves a threshold in 0..7.
\<close>

theorem threshold_never_leaves_range:
  assumes "New lvl dest w0 = (Inr l0, w1)"
  shows "\<exists>l w. run xs (l0, w1) = Inr (l, w) \<and> 0 \<le> LogLevel l \<and> LogLevel l \<le> 7"
proof -
  from New_sound [OF assms] have "sound l0 w1" "valid_level (LogLevel l0)" by simp_all
  from run_sound [OF this, of xs] show ?thesis by (auto simp: valid_level_def)
qed

theorem threshold_never_leaves_range_witness:
  "\<exists>l0 w1. New 6 0 empty_world = (Inr l0, w1) \<and>
     (\<exists>l w. run [Op_SetLogLevel 9, Op_Emit SevDebug (Print [''d'']), Op_SetLogLevel 2,
                   Op_Reconfigure SevInfo (SetPrefix ''''), Op_LogLevel] (l0, w1) = Inr (l, w) \<and>
            0 \<le> LogLevel l \<and> LogLevel l \<le> 7)"
proof -
  obtain l0 w1 where n: "New 6 0 empty_world = (Inr l0, w1)"
    by (simp add: New_success)
  from threshold_never_leaves_range [OF n] n show ?thesis by blast
qed

section \<open>Emergency messages\<close>

text \<open>
  C4. On a logger returned by \<open>New\<close> and used through any sequence of calls, whatever its
  threshold has become, each of \<open>Emerg\<close>, \<open>Emergf\<close> and \<open>Emergln\<close> adds one entry to the trace,
  written with the configuration of the emergency sub-logger. The same holds for the three
  methods of \<open>nlog.NLog\<close>, on every run of calls that \<open>nlog\<close> completes.
\<close>

theorem Emerg_always_prints:
  "(New lvl dest w0 = (Inr l0, w1) \<longrightarrow> run xs (l0, w1) = Inr (l, w) \<longrightarrow>
      (\<exists>g. deref w (Logger.EmergLogger l) = Some g \<and>
         Emerg l v w = Inr (w\<lparr>trace := trace w @ [Entry (out g) (flag g) (prefix g) (Print v)]\<rparr>) \<and>
         Emergf l format v w =
           Inr (w\<lparr>trace := trace w @ [Entry (out g) (flag g) (prefix g) (Printf format v)]\<rparr>) \<and>
         Emergln l v w =
           Inr (w\<lparr>trace := trace w @ [Entry (out g) (flag g) (prefix g) (Println v)]\<rparr>)))
   \<and> (nlog_New lvl' dest' w0' = (Inr n0, w1') \<longrightarrow> nlog_run ys (n0, w1') = Inr (n, wn) \<longrightarrow>
      (\<exists>g. deref wn (NLog.EmergLogger n) = Some g \<and>
         nlog_Emerg n v wn =
           Inr (wn\<lparr>trace := trace wn @ [Entry (out g) (flag g) (prefix g) (Print v)]\<rparr>) \<and>
         nlog_Emergf n format v wn =
           Inr (wn\<lparr>trace := trace wn @ [Entry (out g) (flag g) (prefix g) (Printf format v)]\<rparr>) \<and>
         nlog_Emergln n v wn =
           Inr (wn\<lparr>trace := trace wn @ [Entry (out g) (flag g) (prefix g) (Println v)]\<rparr>)))"
proof -
  have tw: "\<exists>g. deref w (Logger.EmergLogger l) = Some g \<and>
         Emerg l v w = Inr (w\<lparr>trace := trace w @ [Entry (out g) (flag g) (prefix g) (Print v)]\<rparr>) \<and>
         Emergf l format v w =
           Inr (w\<lparr>trace := trace w @ [Entry (out g) (flag g) (prefix g) (Printf format v)]\<rparr>) \<and>
         Emergln l v w =
           Inr (w\<lparr>trace := trace w @ [Entry (out g) (flag g) (prefix g) (Println v)]\<rparr>)"
    if "sound l w" for l and w :: "'a world"
  proof -
    from sound_allocated [OF that, of SevEmerg] have a: "Logger.EmergLogger l < length (objs w)"
      by simp
    show ?thesis
      by (simp add: Emerg_def Emergf_def Emergln_def print_defs
          log_Output_ok [OF a] deref_allocated [OF a])
  qed
  have 1: "sound l w" if "New lvl dest w0 = (Inr l0, w1)" "run xs (l0, w1) = Inr (l, w)"
    using constructed_sound [OF that] by simp
  have 2: "sound (as_Logger n) wn"
    if "nlog_New lvl' dest' w0' = (Inr n0, w1')" "nlog_run ys (n0, w1') = Inr (n, wn)"
    using constructed_sound [OF nlog_New_agrees [OF that(1)] nlog_run_agrees [OF that(2)]]
    by simp
  have eq: "nlog_Emerg n v wn = Emerg (as_Logger n) v wn"
    "nlog_Emergf n format v wn = Emergf (as_Logger n) format v wn"
    "nlog_Emergln n v wn = Emergln (as_Logger n) v wn"
    "NLog.EmergLogger n = Logger.EmergLogger (as_Logger n)"
    by (simp_all add: nlog_Emerg_def nlog_Emergf_def nlog_Emergln_def
        Emerg_def Emergf_def Emergln_def as_Logger_def)
  from tw [OF 1] tw [OF 2] show ?thesis
    unfolding eq by blast
qed

theorem Emerg_always_prints_witness:
  "\<exists>l0 w1 l w n0 n. New 3 0 empty_world = (Inr l0, w1) \<and>
     run [Op_SetLogLevel 0] (l0, w1) = Inr (l, w) \<and>
     nlog_New 3 0 empty_world = (Inr n0, w1) \<and>
     nlog_run [Op_SetLogLevel 0] (n0, w1) = Inr (n, w) \<and>
     LogLevel l = 0 \<and> nlog_LogLevel n = 0 \<and>
     (\<exists>g. deref w (Logger.EmergLogger l) = Some g \<and>
        Emerg l [''m''] w =
          Inr (w\<lparr>trace := trace w @ [Entry (out g) (flag g) (prefix g) (Print [''m''])]\<rparr>)) \<and>
     (\<exists>g. deref w (NLog.EmergLogger n) = Some g \<and>
        nlog_Emerg n [''m''] w =
          Inr (w\<lparr>trace := trace w @ [Entry (out g) (flag g) (prefix g) (Print [''m''])]\<rparr>))"
proof -
  obtain n0 w1 where m: "nlog_New 3 0 empty_world = (Inr n0, w1)"
    by (simp add: nlog_New_def nlog_checkLogLevel_def log_New_def)
  obtain n where nr: "nlog_run [Op_SetLogLevel 0] (n0, w1) = Inr (n, w1)"
    and nl: "nlog_LogLevel n = 0"
    by (simp add: nlog_SetLogLevel_def nlog_checkLogLevel_def nlog_LogLevel_def)
  note c = nlog_New_agrees [OF m]
  note r = nlog_run_agrees [OF nr]
  from nl have ll: "LogLevel (as_Logger n) = 0"
    by (simp add: nlog_LogLevel_def LogLevel_def as_Logger_def)
  note t = Emerg_always_prints [where v = "[''m'']" and format = "''%s''"]
  from t [THEN conjunct1, rule_format, OF c r]
  have 1: "\<exists>g. deref w1 (Logger.EmergLogger (as_Logger n)) = Some g \<and>
        Emerg (as_Logger n) [''m''] w1 =
          Inr (w1\<lparr>trace := trace w1 @ [Entry (out g) (flag g) (prefix g) (Print [''m''])]\<rparr>)"
    by blast
  from t [THEN conjunct2, rule_format, OF m nr]
  have 2: "\<exists>g. deref w1 (NLog.EmergLogger n) = Some g \<and>
        nlog_Emerg n [''m''] w1 =
          Inr (w1\<lparr>trace := trace w1 @ [Entry (out g) (flag g) (prefix g) (Print [''m''])]\<rparr>)"
    by blast
  from c r m nr ll nl 1 2 show ?thesis by blast
qed

section \<open>The sub-loggers built by the constructor\<close>

text \<open>
  C6. After a successful \<open>New\<close>, each of the eight handles points at a standard logger bound
  to the destination given, with the bracketed prefix of its severity (trailing space
  included) and the flags \<open>Ldate | Ltime | Lmsgprefix\<close>. The eight objects are distinct, the
  objects that existed before are untouched, and nothing is written.
\<close>

theorem New_configures_sub_loggers:
  assumes "New lvl dest w0 = (Inr l, w)"
  shows "deref w (Logger.EmergLogger l) =
           Some \<lparr>out = dest, prefix = ''[EMERG] '', flag = Ldate OR Ltime OR Lmsgprefix\<rparr>
       \<and> deref w (Logger.AlertLogger l) =
           Some \<lparr>out = dest, prefix = ''[ALERT] '', flag = Ldate OR Ltime OR Lmsgprefix\<rparr>
       \<and> deref w (Logger.CritLogger l) =
           Some \<lparr>out = dest, prefix = ''[CRIT] '', flag = Ldate OR Ltime OR Lmsgprefix\<rparr>
       \<and> deref w (Logger.ErrorLogger l) =
           Some \<lparr>out = dest, prefix = ''[ERROR] '', flag = Ldate OR Ltime OR Lmsgprefix\<rparr>
       \<and> deref w (Logger.WarningLogger l) =
           Some \<lparr>out = dest, prefix = ''[WARN] '', flag = Ldate OR Ltime OR Lmsgprefix\<rparr>
       \<and> deref w (Logger.NoticeLogger l) =
           Some \<lparr>out = dest, prefix = ''[NOTICE] '', flag = Ldate OR Ltime OR Lmsgprefix\<rparr>
       \<and> deref w (Logger.InfoLogger l) =
           Some \<lparr>out = dest, prefix = ''[INFO] '', flag = Ldate OR Ltime OR Lmsgprefix\<rparr>
       \<and> deref w (Logger.DebugLogger l) =
           Some \<lparr>out = dest, prefix = ''[DEBUG] '', flag = Ldate OR Ltime OR Lmsgprefix\<rparr>
       \<and> distinct (handles l)
       \<and> take (length (objs w0)) (objs w) = objs w0
       \<and> trace w = trace w0"
proof (cases "0 \<le> lvl \<and> lvl \<le> 7")
  case True
  with assms have
    l: "l = \<lparr>Logger.logLevel = lvl,
           Logger.EmergLogger = length (objs w0),
           Logger.AlertLogger = length (objs w0) + 1,
           Logger.CritLogger = length (objs w0) + 2,
           Logger.ErrorLogger = length (objs w0) + 3,
           Logger.WarningLogger = length (objs w0) + 4,
           Logger.NoticeLogger = length (objs w0) + 5,
           Logger.InfoLogger = length (objs w0) + 6,
           Logger.DebugLogger = length (objs w0) + 7\<rparr>"
    and w: "w = w0\<lparr>objs := objs w0 @
        [\<lparr>out = dest, prefix = ''[EMERG] '', flag = Ldate OR Ltime OR Lmsgprefix\<rparr>,
         \<lparr>out = dest, prefix = ''[ALERT] '', flag = Ldate OR Ltime OR Lmsgprefix\<rparr>,
         \<lparr>out = dest, prefix = ''[CRIT] '', flag = Ldate OR Ltime OR Lmsgprefix\<rparr>,
         \<lparr>out = dest, prefix = ''[ERROR] '', flag = Ldate OR Ltime OR Lmsgprefix\<rparr>,
         \<lparr>out = dest, prefix = ''[WARN] '', flag = Ldate OR Ltime OR Lmsgprefix\<rparr>,
         \<lparr>out = dest, prefix = ''[NOTICE] '', flag = Ldate OR Ltime OR Lmsgprefix\<rparr>,
         \<lparr>out = dest, prefix = ''[INFO] '', flag = Ldate OR Ltime OR Lmsgprefix\<rparr>,
         \<lparr>out = dest, prefix = ''[DEBUG] '', flag = Ldate OR Ltime OR Lmsgprefix\<rparr>]\<rparr>"
    by (simp_all add: New_success)
  show ?thesis
    unfolding l w by (simp add: deref_def handles_def nth_append)
next
  case False
  with assms show ?thesis by (simp add: New_failure)
qed

theorem New_configures_sub_loggers_witness:
  "\<exists>l w. New 6 0 empty_world = (Inr l, w) \<and>
     deref w (Logger.EmergLogger l) = Some \<lparr>out = 0, prefix = ''[EMERG] '', flag = 67\<rparr> \<and>
     deref w (Logger.InfoLogger l) = Some \<lparr>out = 0, prefix = ''[INFO] '', flag = 67\<rparr> \<and>
     deref w (Logger.DebugLogger l) = Some \<lparr>out = 0, prefix = ''[DEBUG] '', flag = 67\<rparr> \<and>
     distinct (handles l) \<and> trace w = []"
proof -
  obtain l w where n: "New 6 0 empty_world = (Inr l, w)"
    by (simp add: New_success)
  from New_configures_sub_loggers [OF n] n show ?thesis
    by (simp add: flags_value empty_world_def)
qed

section \<open>Isolation of the sub-loggers\<close>

text \<open>
  C8. On a logger returned by \<open>New\<close> and used through any sequence of calls, setting the
  destination, the prefix or the flags of the sub-logger of one severity succeeds, leaves the
  sub-logger of every other severity as it was, and leaves what an emission at any other
  severity writes as it was.
\<close>

theorem reconfiguration_is_isolated:
  assumes "New lvl dest w0 = (Inr l0, w1)" and "run xs (l0, w1) = Inr (l, w)" and "S \<noteq> S'"
  shows "\<exists>w'. step (Op_Reconfigure S k) (l, w) = Inr (Done, l, w') \<and>
           deref w' (sub_logger l S') = deref w (sub_logger l S') \<and>
           emitted S' c l w' = emitted S' c l w \<and>
           trace w' = trace w"
proof -
  from constructed_sound [OF assms(1,2)] have s: "sound l w" and v: "valid_level (LogLevel l)"
    by simp_all
  from v have nonneg: "0 \<le> LogLevel l" by (simp add: valid_level_def)
  from s have a: "sub_logger l S < length (objs w)" and a': "sub_logger l S' < length (objs w)"
    by (simp_all add: sound_allocated)
  from s assms(3) have ne: "sub_logger l S \<noteq> sub_logger l S'" by (rule sound_distinct)
  show ?thesis
    using a' ne
    by (simp add: reconfigure_ok [OF a] emitted_def emit_filter [OF nonneg] log_Output_def deref_def)
qed

theorem reconfiguration_is_isolated_witness:
  "\<exists>l w w'. New 7 0 empty_world = (Inr l, w) \<and> run [] (l, w) = Inr (l, w) \<and>
     SevDebug \<noteq> SevInfo \<and>
     step (Op_Reconfigure SevDebug (SetPrefix '''')) (l, w) = Inr (Done, l, w') \<and>
     deref w (sub_logger l SevDebug) = Some \<lparr>out = 0, prefix = ''[DEBUG] '', flag = 67\<rparr> \<and>
     deref w' (sub_logger l SevDebug) = Some \<lparr>out = 0, prefix = '''', flag = 67\<rparr> \<and>
     deref w' (sub_logger l SevInfo) = deref w (sub_logger l SevInfo) \<and>
     emitted SevInfo (Println [''Regular message'']) l w' =
       emitted SevInfo (Println [''Regular message'']) l w \<and>
     trace w' = trace w"
proof -
  obtain l w where n: "New 7 0 empty_world = (Inr l, w)"
    and b: "deref w (sub_logger l SevDebug) = Some \<lparr>out = 0, prefix = ''[DEBUG] '', flag = 67\<rparr>"
    by (simp add: New_success deref_def empty_world_def flags_value)
  have r: "run [] (l, w) = Inr (l, w)" by simp
  have d: "SevDebug \<noteq> SevInfo" by simp
  from reconfiguration_is_isolated
    [OF n r d, of "SetPrefix ''''" "Println [''Regular message'']"]
  obtain w' where s: "step (Op_Reconfigure SevDebug (SetPrefix '''')) (l, w) = Inr (Done, l, w')"
    and i: "deref w' (sub_logger l SevInfo) = deref w (sub_logger l SevInfo)"
      "emitted SevInfo (Println [''Regular message'']) l w' =
         emitted SevInfo (Println [''Regular message'']) l w"
      "trace w' = trace w"
    by blast
  from s b have a: "deref w' (sub_logger l SevDebug) = Some \<lparr>out = 0, prefix = '''', flag = 67\<rparr>"
    by (auto simp: log_SetPrefix_def deref_def split: if_splits)
  from n r d s b a i show ?thesis by blast
qed

section \<open>What a call may change\<close>

text \<open>
  C9. \<open>LogLevel\<close> returns the threshold and changes neither the logger nor the store. An
  emission leaves the logger struct (threshold and the eight handles) and every standard
  logger in the store as they were. If a call changes the threshold at all, the call is
  \<open>SetLogLevel\<close> with a level in 0..7, and the new threshold is that level.
\<close>

theorem threshold_changes_only_by_SetLogLevel:
  assumes "step x (l, w) = Inr (r, l', w')"
  shows "(x = Op_LogLevel \<longrightarrow> r = Level (LogLevel l) \<and> l' = l \<and> w' = w)
       \<and> ((\<exists>S c. x = Op_Emit S c) \<longrightarrow> l' = l \<and> objs w' = objs w)
       \<and> (LogLevel l' \<noteq> LogLevel l \<longrightarrow>
            (\<exists>lvl. x = Op_SetLogLevel lvl \<and> valid_level lvl \<and> LogLevel l' = lvl))"
proof (cases x)
  case Op_LogLevel
  with assms show ?thesis by auto
next
  case (Op_SetLogLevel lvl)
  with assms show ?thesis
    by (auto simp: SetLogLevel_cases LogLevel_def valid_level_def split: if_splits)
next
  case (Op_Emit S c)
  with assms show ?thesis by (auto split: sum.splits dest: emit_keeps_objs)
next
  case (Op_Reconfigure S k)
  with assms show ?thesis by (auto split: sum.splits)
qed

theorem threshold_changes_only_by_SetLogLevel_witness:
  "\<exists>l w w'. New 6 0 empty_world = (Inr l, w) \<and>
     step (Op_Emit SevInfo (Print [''x''])) (l, w) = Inr (Done, l, w') \<and>
     objs w' = objs w \<and> LogLevel l = 6"
proof -
  obtain l w where n: "New 6 0 empty_world = (Inr l, w)" and lv: "LogLevel l = 6"
    by (simp add: New_success LogLevel_def)
  from New_sound [OF n] have "sound l w" by simp
  then have a: "sub_logger l SevInfo < length (objs w)" by (rule sound_allocated)
  from lv have nonneg: "0 \<le> LogLevel l" by simp
  obtain w' where s: "step (Op_Emit SevInfo (Print [''x''])) (l, w) = Inr (Done, l, w')"
    using lv by (simp add: emit_filter [OF nonneg] log_Output_ok [OF a] LOG_INFO_def del: emit.simps sub_logger.simps)
  from threshold_changes_only_by_SetLogLevel [OF s] have "objs w' = objs w" by blast
  with n s lv show ?thesis by blast
qed

section \<open>The two packages compared\<close>

text \<open>
  C5. The two logger types are meant to behave alike, and they do on every entry point but
  one (\<open>nlog_New_agrees\<close>, \<open>nlog_SetLogLevel_agrees\<close>, \<open>nlog_emit_agrees\<close>). The exception is
  \<open>Errorln\<close>. Both constructors, called with level 3 on the empty store, build the same
  logger over the same store; there \<open>twigsnake\<close>'s \<open>Errorln\<close> prints the message through the
  error sub-logger, while \<open>nlog\<close>'s \<open>Errorln\<close> asks for the field \<open>loglLevel\<close>, which \<open>NLog\<close> does
  not declare, and prints nothing.
\<close>

theorem nlog_Errorln_reads_undeclared_field:
  "nlog_Errorln (projr (fst (nlog_New 3 0 empty_world))) [''e''] (snd (nlog_New 3 0 empty_world)) =
     Inl (UndefinedField ''loglLevel'')
   \<and> Errorln (projr (fst (New 3 0 empty_world))) [''e''] (snd (New 3 0 empty_world)) =
     Inr ((snd (New 3 0 empty_world))
            \<lparr>trace := [Entry 0 (Ldate OR Ltime OR Lmsgprefix) ''[ERROR] '' (Println [''e''])]\<rparr>)
   \<and> as_Logger (projr (fst (nlog_New 3 0 empty_world))) = projr (fst (New 3 0 empty_world))
   \<and> snd (nlog_New 3 0 empty_world) = snd (New 3 0 empty_world)"
  by (simp add: nlog_Errorln_fails New_success nlog_New_def nlog_checkLogLevel_def log_New_def
      as_Logger_def Errorln_def LOG_ERROR_def log_Println_def log_Output_def deref_def
      empty_world_def)

end
